theory Spec2Isabelle
  imports Main "HOL-Library.Word"
begin

unbundle bit_operations_syntax

section \<open>The pthread layer over the Windows API (src/arch/windows_stub/pthread.cc)\<close>

subsection \<open>Machine types and constants\<close>

text \<open>
  The file is compiled for 64-bit Windows: a \<open>void *\<close>, a \<open>uintptr_t\<close>, a \<open>size_t\<close>
  and a \<open>HANDLE\<close> have 64 bits, a \<open>DWORD\<close> has 32. A pointer is the word that holds
  its address, \<open>nullptr\<close> is the word 0.
\<close>

type_synonym DWORD = "32 word"
type_synonym uintptr_t = "64 word"
type_synonym HANDLE = "64 word"

definition NULL :: uintptr_t where
  "NULL = 0"

definition EINVAL :: int where
  "EINVAL = 22"

definition WAIT_OBJECT_0 :: DWORD where
  "WAIT_OBJECT_0 = 0"

definition WAIT_FAILED :: DWORD where
  "WAIT_FAILED = 0xFFFFFFFF"

definition INFINITE :: DWORD where
  "INFINITE = 0xFFFFFFFF"

definition STILL_ACTIVE :: DWORD where
  "STILL_ACTIVE = 259"

text \<open>
  Modelled from the spec: \<open>PTHREAD_ONCE_INIT\<close> and \<open>PTHREAD_ONCE_COMPLETED\<close> come from
  the layer's header pthread.h, which is not among the sources. The guard is a \<open>bool\<close>
  (\<open>bool *complete\<close>) that goes from not-started to completed.
\<close>

definition PTHREAD_ONCE_INIT :: bool where
  "PTHREAD_ONCE_INIT = False"

definition PTHREAD_ONCE_COMPLETED :: bool where
  "PTHREAD_ONCE_COMPLETED = True"

subsection \<open>Outcomes of a call\<close>

text \<open>
  A call returns, halts the process at a failed assertion, or does not return because
  the calling thread is suspended.
\<close>

datatype 'a outcome = Return 'a | Abort string | Blocks

text \<open>
  Modelled from the spec: \<open>rassert\<close> and \<open>guarantee_winerr\<close> are macros of errors.hpp,
  which is not among the sources. Both are the fatal assertion of the spec: the process
  halts when the condition is false. (The model takes the build in which \<open>rassert\<close>
  is active.)
\<close>

definition rassert :: "bool \<Rightarrow> string \<Rightarrow> unit outcome" where
  "rassert cond msg = (if cond then Return () else Abort msg)"

definition guarantee_winerr :: "bool \<Rightarrow> string \<Rightarrow> unit outcome" where
  "guarantee_winerr cond msg = (if cond then Return () else Abort msg)"

subsection \<open>The thread thunk\<close>

text \<open>
  \<open>data_t\<close> is \<open>std::tuple<void *(*)(void*), void*>\<close>: the entry function and its
  argument. The entry function is taken as a function from its argument to the pointer
  it returns.
\<close>

type_synonym start_routine = "uintptr_t \<Rightarrow> uintptr_t"
type_synonym data_t = "start_routine \<times> uintptr_t"

text \<open>
  The lambda \<open>go\<close> of \<open>pthread_create\<close>. In C++ the operator \<open>==\<close> binds tighter than
  \<open>|\<close>, so the asserted expression is \<open>res | (0xFFFFFFFF == 0xFFFFFFFF)\<close>: the
  comparison of the two \<open>unsigned int\<close> literals gives a \<open>bool\<close>, which is converted to
  the integer 1 or 0 and or-ed into \<open>res\<close>; the assertion tests the result against 0.
  \<open>reinterpret_cast<DWORD>\<close> keeps the low 32 bits.
\<close>

definition go :: "data_t \<Rightarrow> DWORD outcome" where
  "go data =
     (let f = fst data;
          args = snd data;
          res = f args
      in case rassert ((res OR of_bool ((0xFFFFFFFF :: 32 word) = 0xFFFFFFFF)) \<noteq> 0) [] of
           Return _ \<Rightarrow> Return (ucast res)
         | Abort m \<Rightarrow> Abort m
         | Blocks \<Rightarrow> Blocks)"

subsection \<open>The state of the process and of the operating system\<close>

text \<open>
  The Windows calls are the environment of the layer, not code of the repository. They
  are modelled as the Windows API documents them, on a state that holds what the layer
  and the environment share:
  \<^item> the thread table: a thread that was created and has not finished holds its start
    address, its parameter and its stack size; a finished thread holds its exit code;
  \<^item> the critical sections, each with its owning thread and recursion count;
  \<^item> the calling thread's last-error code;
  \<^item> the lines the layer has written to the log;
  \<^item> the memory cells the layer writes through its pointer arguments
    (\<open>pthread_t *thread\<close>, \<open>void **retval\<close>) and the \<open>bool\<close> cells of the once guards.
  What the environment alone decides (whether a thread can be created and which handle
  it gets, whether a wait on a condition variable fails) is an argument of the model.
\<close>

datatype thread_state =
    Ready "data_t \<Rightarrow> DWORD outcome" data_t uintptr_t
  | Exited DWORD

record critical_section =
  owner :: "nat option"
  recursion :: nat

text \<open>
  Modelled from the spec: \<open>winerr_string\<close> and \<open>logERR\<close> belong to errors.hpp and
  logger.hpp, which are not among the sources. \<open>winerr_string e\<close> is the native
  description of the error code \<open>e\<close>, kept symbolic; \<open>logERR\<close> appends the format and
  its arguments to the log.
\<close>

datatype fmt_arg = winerr_string DWORD

record world =
  threads :: "HANDLE \<rightharpoonup> thread_state"
  mutexes :: "uintptr_t \<rightharpoonup> critical_section"
  last_error :: DWORD
  logged :: "(string \<times> fmt_arg list) list"
  mem :: "uintptr_t \<Rightarrow> uintptr_t"
  flags :: "uintptr_t \<Rightarrow> bool"

definition logERR :: "string \<Rightarrow> fmt_arg list \<Rightarrow> world \<Rightarrow> world" where
  "logERR fmt args w = w\<lparr>logged := logged w @ [(fmt, args)]\<rparr>"

definition GetLastError :: "world \<Rightarrow> DWORD" where
  "GetLastError w = last_error w"

text \<open>
  \<open>CreateThread\<close>: the pair \<open>(h, e)\<close> is the environment's decision. With \<open>h = NULL\<close>
  the call fails, creates nothing and sets the last-error code to \<open>e\<close>; otherwise the
  thread \<open>h\<close> exists and will run \<open>lpStartAddress lpParameter\<close>.
\<close>

definition CreateThread ::
  "uintptr_t \<Rightarrow> uintptr_t \<Rightarrow> (data_t \<Rightarrow> DWORD outcome) \<Rightarrow> data_t \<Rightarrow> DWORD \<Rightarrow> uintptr_t \<Rightarrow>
   HANDLE \<times> DWORD \<Rightarrow> world \<Rightarrow> HANDLE \<times> world" where
  "CreateThread lpThreadAttributes dwStackSize lpStartAddress lpParameter dwCreationFlags
     lpThreadId os w =
     (if fst os = NULL then (NULL, w\<lparr>last_error := snd os\<rparr>)
      else (fst os,
            w\<lparr>threads := (threads w)(fst os \<mapsto> Ready lpStartAddress lpParameter dwStackSize)\<rparr>))"


definition WAIT_TIMEOUT :: DWORD where
  "WAIT_TIMEOUT = 258"

text \<open>
  \<open>WaitForSingleObject\<close> on a thread handle: \<open>WAIT_FAILED\<close> for a handle that names no
  thread, \<open>WAIT_OBJECT_0\<close> for a finished thread; on a running thread the call does not
  return while the timeout is \<open>INFINITE\<close> (the result \<open>None\<close>).
\<close>

definition WaitForSingleObject :: "HANDLE \<Rightarrow> DWORD \<Rightarrow> world \<Rightarrow> DWORD option" where
  "WaitForSingleObject h ms w =
     (case threads w h of
        None \<Rightarrow> Some WAIT_FAILED
      | Some (Exited code) \<Rightarrow> Some WAIT_OBJECT_0
      | Some (Ready start param stack) \<Rightarrow> (if ms = INFINITE then None else Some WAIT_TIMEOUT))"

text \<open>
  \<open>GetExitCodeThread\<close> returns the \<open>BOOL\<close> and the content of \<open>exit_code\<close> after the
  call. On failure the variable is not written; the model puts 0 there, and the layer
  never reads it, since \<open>guarantee_winerr\<close> halts first.
\<close>

definition GetExitCodeThread :: "HANDLE \<Rightarrow> world \<Rightarrow> bool \<times> DWORD" where
  "GetExitCodeThread h w =
     (case threads w h of
        None \<Rightarrow> (False, 0)
      | Some (Exited code) \<Rightarrow> (True, code)
      | Some (Ready start param stack) \<Rightarrow> (True, STILL_ACTIVE))"

definition InitializeCriticalSection :: "uintptr_t \<Rightarrow> world \<Rightarrow> world" where
  "InitializeCriticalSection m w =
     w\<lparr>mutexes := (mutexes w)(m \<mapsto> \<lparr>owner = None, recursion = 0\<rparr>)\<rparr>"

text \<open>
  \<open>EnterCriticalSection\<close> and \<open>LeaveCriticalSection\<close>, called by the thread \<open>self\<close>. A
  critical section is re-entrant for its owner and suspends every other thread. The
  Windows API leaves the calls undefined on an object that was never initialised and a
  release by a thread that is not the owner; the model halts there.
\<close>

definition EnterCriticalSection :: "nat \<Rightarrow> uintptr_t \<Rightarrow> world \<Rightarrow> world outcome" where
  "EnterCriticalSection self m w =
     (case mutexes w m of
        None \<Rightarrow> Abort ''undefined: critical section not initialised''
      | Some cs \<Rightarrow>
          (if owner cs = None
           then Return (w\<lparr>mutexes := (mutexes w)(m \<mapsto> \<lparr>owner = Some self, recursion = 1\<rparr>)\<rparr>)
           else if owner cs = Some self
           then Return (w\<lparr>mutexes := (mutexes w)(m \<mapsto> cs\<lparr>recursion := recursion cs + 1\<rparr>)\<rparr>)
           else Blocks))"

definition LeaveCriticalSection :: "nat \<Rightarrow> uintptr_t \<Rightarrow> world \<Rightarrow> world outcome" where
  "LeaveCriticalSection self m w =
     (case mutexes w m of
        None \<Rightarrow> Abort ''undefined: critical section not initialised''
      | Some cs \<Rightarrow>
          (if owner cs = Some self
           then (if recursion cs \<le> 1
                 then Return (w\<lparr>mutexes := (mutexes w)(m \<mapsto> \<lparr>owner = None, recursion = 0\<rparr>)\<rparr>)
                 else Return (w\<lparr>mutexes := (mutexes w)(m \<mapsto> cs\<lparr>recursion := recursion cs - 1\<rparr>)\<rparr>))
           else Abort ''undefined: critical section released by a thread that does not own it''))"

text \<open>
  \<open>SleepConditionVariableCS\<close>: whether the wait fails is the environment's decision
  \<open>res\<close>. When the call returns, the caller owns the critical section as before.
\<close>

definition SleepConditionVariableCS ::
  "uintptr_t \<Rightarrow> uintptr_t \<Rightarrow> DWORD \<Rightarrow> bool \<Rightarrow> world \<Rightarrow> bool \<times> world" where
  "SleepConditionVariableCS cond m ms res w = (res, w)"

subsection \<open>The functions of pthread.cc\<close>

text \<open>
  \<open>pthread_create\<close>. The tuple \<open>data\<close> lives on the C++ heap and is deleted by the
  thunk; the model passes it by value. The argument \<open>attr\<close> is not used.
\<close>

definition pthread_create ::
  "uintptr_t \<Rightarrow> uintptr_t \<Rightarrow> start_routine \<Rightarrow> uintptr_t \<Rightarrow> HANDLE \<times> DWORD \<Rightarrow> world \<Rightarrow> int \<times> world" where
  "pthread_create thread attr start_routine arg os w =
     (let data = (start_routine, arg);
          (handle, w1) = CreateThread NULL 0 go data 0 NULL os w
      in if handle = NULL
         then (EINVAL, logERR ''CreateThread failed: %s'' [winerr_string (GetLastError w1)] w1)
         else (0, w1\<lparr>mem := (mem w1)(thread := handle)\<rparr>))"

text \<open>\<open>pthread_join\<close>. The \<open>DWORD\<close> exit code is zero-extended to the 64-bit pointer.\<close>

definition pthread_join :: "HANDLE \<Rightarrow> uintptr_t \<Rightarrow> world \<Rightarrow> (int \<times> world) outcome" where
  "pthread_join other retval w =
     (case WaitForSingleObject other INFINITE w of
        None \<Rightarrow> Blocks
      | Some res \<Rightarrow>
          (if res \<noteq> WAIT_OBJECT_0 then Return (EINVAL, w)
           else if retval \<noteq> NULL
           then (let (ok, exit_code) = GetExitCodeThread other w
                 in case guarantee_winerr ok ''GetExitCodeThread(other, &exit_code)'' of
                      Return _ \<Rightarrow> Return (0, w\<lparr>mem := (mem w)(retval := ucast exit_code)\<rparr>)
                    | Abort m \<Rightarrow> Abort m
                    | Blocks \<Rightarrow> Blocks)
           else Return (0, w)))"

definition pthread_mutex_init :: "uintptr_t \<Rightarrow> uintptr_t \<Rightarrow> world \<Rightarrow> (int \<times> world) outcome" where
  "pthread_mutex_init mutex opts w =
     (case rassert (opts = NULL)
             ''this implementation of pthread_mutex_init does not support attributes'' of
        Return _ \<Rightarrow> Return (0, InitializeCriticalSection mutex w)
      | Abort m \<Rightarrow> Abort m
      | Blocks \<Rightarrow> Blocks)"

definition pthread_mutex_destroy :: "uintptr_t \<Rightarrow> world \<Rightarrow> int \<times> world" where
  "pthread_mutex_destroy mutex w = (0, w)"

definition pthread_mutex_lock :: "nat \<Rightarrow> uintptr_t \<Rightarrow> world \<Rightarrow> (int \<times> world) outcome" where
  "pthread_mutex_lock self mutex w =
     (case EnterCriticalSection self mutex w of
        Return w1 \<Rightarrow> Return (0, w1)
      | Abort m \<Rightarrow> Abort m
      | Blocks \<Rightarrow> Blocks)"

definition pthread_mutex_unlock :: "nat \<Rightarrow> uintptr_t \<Rightarrow> world \<Rightarrow> (int \<times> world) outcome" where
  "pthread_mutex_unlock self mutex w =
     (case LeaveCriticalSection self mutex w of
        Return w1 \<Rightarrow> Return (0, w1)
      | Abort m \<Rightarrow> Abort m
      | Blocks \<Rightarrow> Blocks)"

definition pthread_attr_init :: "uintptr_t \<Rightarrow> world \<Rightarrow> int \<times> world" where
  "pthread_attr_init a w = (0, w)"

definition pthread_attr_setstacksize :: "uintptr_t \<Rightarrow> uintptr_t \<Rightarrow> world \<Rightarrow> int \<times> world" where
  "pthread_attr_setstacksize a n w = (0, w)"

definition pthread_attr_destroy :: "uintptr_t \<Rightarrow> world \<Rightarrow> int \<times> world" where
  "pthread_attr_destroy a w = (0, w)"

definition pthread_cond_destroy :: "uintptr_t \<Rightarrow> world \<Rightarrow> int \<times> world" where
  "pthread_cond_destroy cond w = (0, w)"

definition pthread_cond_wait :: "uintptr_t \<Rightarrow> uintptr_t \<Rightarrow> bool \<Rightarrow> world \<Rightarrow> int \<times> world" where
  "pthread_cond_wait cond mutex os w =
     (let (res, w1) = SleepConditionVariableCS cond mutex INFINITE os w
      in if res then (0, w1) else (EINVAL, w1))"

text \<open>
  \<open>pthread_once\<close>. The initializer \<open>void (*init)(void)\<close> works on the whole state of
  the process, the guard included; it is taken as an initializer that returns.
\<close>

definition pthread_once :: "uintptr_t \<Rightarrow> (world \<Rightarrow> world) \<Rightarrow> world \<Rightarrow> int \<times> world" where
  "pthread_once complete init w =
     (if flags w complete = PTHREAD_ONCE_INIT
      then (0, init (w\<lparr>flags := (flags w)(complete := PTHREAD_ONCE_COMPLETED)\<rparr>))
      else (0, w))"

text \<open>A sequence of \<open>pthread_once\<close> calls on one guard, each with its initializer.\<close>

fun once_calls :: "uintptr_t \<Rightarrow> (world \<Rightarrow> world) list \<Rightarrow> world \<Rightarrow> int list \<times> world" where
  "once_calls complete [] w = ([], w)"
| "once_calls complete (init # inits) w =
     (let (r, w1) = pthread_once complete init w;
          (rs, w2) = once_calls complete inits w1
      in (r # rs, w2))"

text \<open>The state of a process that has created nothing yet.\<close>

definition world0 :: world where
  "world0 = \<lparr>threads = Map.empty, mutexes = Map.empty, last_error = 0, logged = [],
             mem = (\<lambda>_. 0), flags = (\<lambda>_. PTHREAD_ONCE_INIT)\<rparr>"

text \<open>
  An initializer that writes to the log whether it finds the guard completed, and the
  state in which thread 1 holds the mutex at address 16.
\<close>

definition note_guard :: "uintptr_t \<Rightarrow> world \<Rightarrow> world" where
  "note_guard complete w =
     logERR (if flags w complete = PTHREAD_ONCE_COMPLETED then ''guard completed''
             else ''guard not started'') [] w"

definition held_world :: world where
  "held_world = world0\<lparr>mutexes := [16 \<mapsto> \<lparr>owner = Some 1, recursion = 1\<rparr>]\<rparr>"

text \<open>
  An initializer that logs its run and puts the guard back into its initial state.
\<close>

definition reset_guard :: "uintptr_t \<Rightarrow> world \<Rightarrow> world" where
  "reset_guard complete w =
     logERR ''initializer runs'' [] (w\<lparr>flags := (flags w)(complete := PTHREAD_ONCE_INIT)\<rparr>)"

subsection \<open>Threads contending on a mutex\<close>

text \<open>
  A schedule is a sequence of calls, each made by a thread: \<open>(t, Lock)\<close> is thread \<open>t\<close>
  calling \<open>pthread_mutex_lock\<close>, \<open>(t, Unlock)\<close> is thread \<open>t\<close> calling
  \<open>pthread_mutex_unlock\<close>, both on the mutex \<open>m\<close>. Beside the state, a run counts for
  every thread the lock calls that have returned to it and that it has not yet matched
  by an unlock call that returned: the thread holds the mutex while its count is
  positive. A call that suspends its thread changes nothing, and the thread may try
  again later in the schedule; a call that halts the process ends the run.
\<close>

datatype mutex_call = Lock | Unlock

fun mutex_step ::
  "uintptr_t \<Rightarrow> nat \<times> mutex_call \<Rightarrow> world \<times> (nat \<Rightarrow> nat) \<Rightarrow> (world \<times> (nat \<Rightarrow> nat)) option" where
  "mutex_step m (t, Lock) (w, held) =
     (case pthread_mutex_lock t m w of
        Return (r, w1) \<Rightarrow> Some (w1, held(t := held t + 1))
      | Abort msg \<Rightarrow> None
      | Blocks \<Rightarrow> Some (w, held))"
| "mutex_step m (t, Unlock) (w, held) =
     (case pthread_mutex_unlock t m w of
        Return (r, w1) \<Rightarrow> Some (w1, held(t := held t - 1))
      | Abort msg \<Rightarrow> None
      | Blocks \<Rightarrow> Some (w, held))"

fun run_schedule ::
  "uintptr_t \<Rightarrow> (nat \<times> mutex_call) list \<Rightarrow> world \<times> (nat \<Rightarrow> nat) \<Rightarrow> (world \<times> (nat \<Rightarrow> nat)) option" where
  "run_schedule m [] s = Some s"
| "run_schedule m (c # cs) s =
     (case mutex_step m c s of
        None \<Rightarrow> None
      | Some s1 \<Rightarrow> run_schedule m cs s1)"

text \<open>
  The invariant of a run: the mutex is an initialised critical section; when no thread
  owns it every count is 0, and when thread \<open>u\<close> owns it the count of \<open>u\<close> is the
  recursion count, which is positive, and every other count is 0.
\<close>

definition lock_invariant :: "uintptr_t \<Rightarrow> world \<times> (nat \<Rightarrow> nat) \<Rightarrow> bool" where
  "lock_invariant m s =
     (case mutexes (fst s) m of
        None \<Rightarrow> False
      | Some cs \<Rightarrow>
          (case owner cs of
             None \<Rightarrow> (\<forall>t. snd s t = 0)
           | Some u \<Rightarrow> 1 \<le> recursion cs \<and> snd s u = recursion cs \<and> (\<forall>t. t \<noteq> u \<longrightarrow> snd s t = 0)))"

section \<open>Shared lemmas\<close>



text \<open>On a guard that is no longer in its initial state every call returns 0 at once.\<close>

lemma once_calls_completed:
  "flags w c \<noteq> PTHREAD_ONCE_INIT \<Longrightarrow> once_calls c inits w = (replicate (length inits) 0, w)"
  by (induction inits) (simp_all add: pthread_once_def)

text \<open>The invariant holds after \<open>pthread_mutex_init\<close> and every call keeps it.\<close>

lemma lock_invariant_init:
  "pthread_mutex_init m NULL w0 = Return (0, w) \<Longrightarrow> lock_invariant m (w, \<lambda>_. 0)"
  by (auto simp: pthread_mutex_init_def rassert_def InitializeCriticalSection_def
      lock_invariant_def)

lemma lock_invariant_step:
  assumes "lock_invariant m s" and "mutex_step m c s = Some s1"
  shows "lock_invariant m s1"
proof -
  obtain w held where s: "s = (w, held)" by (cases s)
  obtain t k where c: "c = (t, k)" by (cases c)
  from assms(1) s obtain cs where cs: "mutexes w m = Some cs"
    by (auto simp: lock_invariant_def split: option.splits)
  show ?thesis
  proof (cases k)
    case Lock
    with assms s c cs show ?thesis
      by (auto simp: lock_invariant_def pthread_mutex_lock_def EnterCriticalSection_def
          split: option.splits if_splits)
  next
    case Unlock
    with assms s c cs show ?thesis
      by (auto simp: lock_invariant_def pthread_mutex_unlock_def LeaveCriticalSection_def
          split: option.splits if_splits)
  qed
qed

lemma lock_invariant_run:
  "lock_invariant m s \<Longrightarrow> run_schedule m sched s = Some s1 \<Longrightarrow> lock_invariant m s1"
proof (induction sched arbitrary: s)
  case Nil
  then show ?case by simp
next
  case (Cons c sched)
  then show ?case
    by (auto split: option.splits dest: lock_invariant_step)
qed

lemma lock_invariant_exclusive:
  "lock_invariant m (w, held) \<Longrightarrow> 0 < held t1 \<Longrightarrow> 0 < held t2 \<Longrightarrow> t1 = t2"
  by (auto simp: lock_invariant_def split: option.splits) (metis less_numeral_extra(3))+

section \<open>Claims\<close>

subsection \<open>C1: the range check of the thunk\<close>

text \<open>
  C1. A thread whose entry function returns a pointer with a bit set above the low
  32 bits should stop at the assertion of the thunk, before the value is truncated.
  It does not: for the value \<open>2 ^ 32\<close> the assertion passes and the thunk returns the
  truncated value 0.
\<close>

theorem go_truncates_silently:
  "(0xFFFFFFFF :: uintptr_t) < 0x100000000 \<and> go ((\<lambda>_. 0x100000000), 0) = Return 0"
  by (simp add: go_def rassert_def Let_def)

subsection \<open>C2: when the guard becomes completed\<close>

text \<open>
  C2, as stated, fails: the guard should not be observable as completed while the
  initializer runs. An initializer that logs what it finds in the guard, called through
  \<open>pthread_once\<close> on a fresh guard, finds it completed.
\<close>

theorem pthread_once_init_sees_completed:
  "flags world0 1 = PTHREAD_ONCE_INIT \<and>
   logged (snd (pthread_once 1 (note_guard 1) world0)) = [(''guard completed'', [])]"
  by (simp add: pthread_once_def note_guard_def world0_def logERR_def
      PTHREAD_ONCE_INIT_def PTHREAD_ONCE_COMPLETED_def)

text \<open>
  C2, amended. On a guard in its initial state \<open>pthread_once\<close> marks the guard
  completed first and then invokes the initializer: the initializer starts in the state
  \<open>w1\<close> that differs from the caller's state only in the guard, which is already
  completed there, and the call returns 0 with the state the initializer leaves.
\<close>

theorem pthread_once_marks_before_init:
  assumes "flags w c = PTHREAD_ONCE_INIT"
  shows "\<exists>w1. pthread_once c init w = (0, init w1) \<and>
              flags w1 c = PTHREAD_ONCE_COMPLETED \<and>
              (\<forall>a. a \<noteq> c \<longrightarrow> flags w1 a = flags w a) \<and>
              w1\<lparr>flags := flags w\<rparr> = w"
  using assms
  by (intro exI [of _ "w\<lparr>flags := (flags w)(c := PTHREAD_ONCE_COMPLETED)\<rparr>"])
     (simp add: pthread_once_def)

theorem pthread_once_marks_before_init_witness:
  "flags world0 1 = PTHREAD_ONCE_INIT \<and>
   (\<exists>w1. pthread_once 1 (note_guard 1) world0 = (0, note_guard 1 w1) \<and>
         flags w1 1 = PTHREAD_ONCE_COMPLETED \<and>
         (\<forall>a. a \<noteq> 1 \<longrightarrow> flags w1 a = flags world0 a) \<and>
         w1\<lparr>flags := flags world0\<rparr> = world0)"
proof -
  have h: "flags world0 1 = PTHREAD_ONCE_INIT" by (simp add: world0_def)
  show ?thesis
    using h pthread_once_marks_before_init
      [where w = world0 and c = 1 and init = "note_guard 1", OF h]
    by simp
qed

subsection \<open>C3: errors returned without a log line\<close>

text \<open>
  C3. Every failure of a Windows call that is returned as an error code should be
  logged first, as \<open>pthread_create\<close> does. \<open>pthread_join\<close> and \<open>pthread_cond_wait\<close> do
  not: joining a handle that names no thread (the wait gives \<open>WAIT_FAILED\<close>) and a
  failed wait on a condition variable both return \<open>EINVAL\<close>, and the log stays empty.
\<close>

theorem errors_returned_without_log:
  "WaitForSingleObject 7 INFINITE world0 = Some WAIT_FAILED \<and>
   pthread_join 7 NULL world0 = Return (EINVAL, world0) \<and>
   pthread_cond_wait 1 2 False world0 = (EINVAL, world0) \<and>
   logged world0 = []"
  by (simp add: pthread_join_def pthread_cond_wait_def WaitForSingleObject_def
      SleepConditionVariableCS_def world0_def WAIT_FAILED_def WAIT_OBJECT_0_def)

subsection \<open>C4: join yields the value the thread returned\<close>



subsection \<open>C5: the initializer runs on the first call only\<close>

text \<open>
  C5, as stated, fails: it speaks of every initializer. An initializer that puts the
  guard back into its initial state leaves the guard not completed after the first
  call, and the second call on the guard runs it again.
\<close>

theorem pthread_once_reset_runs_twice:
  "flags world0 1 = PTHREAD_ONCE_INIT \<and>
   flags (snd (pthread_once 1 (reset_guard 1) world0)) 1 = PTHREAD_ONCE_INIT \<and>
   logged (snd (once_calls 1 [reset_guard 1, reset_guard 1] world0)) =
     [(''initializer runs'', []), (''initializer runs'', [])]"
  by (simp add: pthread_once_def reset_guard_def world0_def logERR_def
      PTHREAD_ONCE_INIT_def PTHREAD_ONCE_COMPLETED_def)

text \<open>
  C5, amended. Take a guard in its initial state and an initializer that does not
  write the guard. The first \<open>pthread_once\<close> call returns 0 with the state \<open>w1\<close> that
  one run of the initializer produces, and the guard is completed there. Every sequence
  of further calls on the guard, with any initializers, returns 0 each time and leaves
  \<open>w1\<close> as it is: the guard is unchanged and no initializer has run.
\<close>

theorem pthread_once_sequence:
  assumes "flags w c = PTHREAD_ONCE_INIT"
    and "\<forall>s. flags (init s) c = flags s c"
  shows "\<exists>w1. pthread_once c init w = (0, w1) \<and>
              w1 = init (w\<lparr>flags := (flags w)(c := PTHREAD_ONCE_COMPLETED)\<rparr>) \<and>
              flags w1 c = PTHREAD_ONCE_COMPLETED \<and>
              once_calls c inits w1 = (replicate (length inits) 0, w1) \<and>
              once_calls c (init # inits) w = (replicate (Suc (length inits)) 0, w1)"
proof -
  let ?w1 = "init (w\<lparr>flags := (flags w)(c := PTHREAD_ONCE_COMPLETED)\<rparr>)"
  have first: "pthread_once c init w = (0, ?w1)"
    using assms(1) by (simp add: pthread_once_def)
  have mk: "flags ?w1 c = PTHREAD_ONCE_COMPLETED"
    using assms(2) by simp
  then have "flags ?w1 c \<noteq> PTHREAD_ONCE_INIT"
    by (simp add: PTHREAD_ONCE_INIT_def PTHREAD_ONCE_COMPLETED_def)
  then have rest: "once_calls c inits ?w1 = (replicate (length inits) 0, ?w1)"
    by (rule once_calls_completed)
  have "once_calls c (init # inits) w = (replicate (Suc (length inits)) 0, ?w1)"
    by (simp add: first rest)
  with first rest mk show ?thesis by blast
qed

theorem pthread_once_sequence_witness:
  "flags world0 1 = PTHREAD_ONCE_INIT \<and>
   (\<forall>s. flags (note_guard 1 s) 1 = flags s 1) \<and>
   (\<exists>w1. pthread_once 1 (note_guard 1) world0 = (0, w1) \<and>
         logged w1 = [(''guard completed'', [])] \<and>
         flags w1 1 = PTHREAD_ONCE_COMPLETED \<and>
         once_calls 1 [note_guard 1, note_guard 1] w1 = ([0, 0], w1) \<and>
         once_calls 1 [note_guard 1, note_guard 1, note_guard 1] world0 = ([0, 0, 0], w1))"
proof -
  have h1: "flags world0 1 = PTHREAD_ONCE_INIT" by (simp add: world0_def)
  have h2: "\<forall>s. flags (note_guard 1 s) 1 = flags s 1"
    by (simp add: note_guard_def logERR_def)
  have l: "logged (note_guard 1 (world0\<lparr>flags := (flags world0)(1 := PTHREAD_ONCE_COMPLETED)\<rparr>))
           = [(''guard completed'', [])]"
    by (simp add: note_guard_def logERR_def world0_def)
  show ?thesis
    using h1 h2 l pthread_once_sequence
      [where w = world0 and c = 1 and init = "note_guard 1"
        and inits = "[note_guard 1, note_guard 1]", OF h1 h2]
    by simp
qed

subsection \<open>C6: a failed thread creation\<close>

text \<open>
  C6. When \<open>CreateThread\<close> gives a null handle, \<open>pthread_create\<close> returns \<open>EINVAL\<close>,
  which is not 0, the thread table is as before (no thread was started) and no memory
  cell was written, the caller's \<open>pthread_t\<close> included. On success it returns 0 and
  the only cell written is \<open>*thread\<close>, which receives the handle.
\<close>

theorem pthread_create_failure:
  assumes "pthread_create t attr f arg (h, e) w = (r, w')"
  shows "(h = NULL \<longrightarrow> r = EINVAL \<and> r \<noteq> 0 \<and> threads w' = threads w \<and> mem w' = mem w) \<and>
         (h \<noteq> NULL \<longrightarrow> r = 0 \<and> mem w' = (mem w)(t := h))"
  using assms
  by (auto simp: pthread_create_def CreateThread_def logERR_def EINVAL_def)

theorem pthread_create_failure_witness:
  "pthread_create 3 0 (\<lambda>x. x) 0 (NULL, 8) world0 =
     (EINVAL, world0\<lparr>last_error := 8,
                     logged := [(''CreateThread failed: %s'', [winerr_string 8])]\<rparr>) \<and>
   EINVAL \<noteq> 0 \<and>
   threads (world0\<lparr>last_error := 8,
                   logged := [(''CreateThread failed: %s'', [winerr_string 8])]\<rparr>)
     = threads world0 \<and>
   mem (world0\<lparr>last_error := 8,
               logged := [(''CreateThread failed: %s'', [winerr_string 8])]\<rparr>)
     = mem world0 \<and>
   (5 :: HANDLE) \<noteq> NULL \<and>
   pthread_create 3 0 (\<lambda>x. x) 0 (5, 0) world0 =
     (0, world0\<lparr>threads := [5 \<mapsto> Ready go (\<lambda>x. x, 0) 0], mem := (mem world0)(3 := 5)\<rparr>) \<and>
   mem (world0\<lparr>threads := [5 \<mapsto> Ready go (\<lambda>x. x, 0) 0], mem := (mem world0)(3 := 5)\<rparr>)
     = (mem world0)(3 := 5)"
proof -
  have h: "pthread_create 3 0 (\<lambda>x. x) 0 (NULL, 8) world0 =
     (EINVAL, world0\<lparr>last_error := 8,
                     logged := [(''CreateThread failed: %s'', [winerr_string 8])]\<rparr>)"
    by (simp add: pthread_create_def CreateThread_def logERR_def GetLastError_def world0_def)
  have n: "(5 :: HANDLE) \<noteq> NULL" by (simp add: NULL_def)
  have s: "pthread_create 3 0 (\<lambda>x. x) 0 (5, 0) world0 =
     (0, world0\<lparr>threads := [5 \<mapsto> Ready go (\<lambda>x. x, 0) 0], mem := (mem world0)(3 := 5)\<rparr>)"
    by (simp add: pthread_create_def CreateThread_def NULL_def world0_def)
  show ?thesis
    using h n s pthread_create_failure [OF h] pthread_create_failure [OF s] by simp
qed

subsection \<open>C7: mutex attributes\<close>

text \<open>
  C7. \<open>pthread_mutex_init\<close> with an attribute argument that is not null stops at the
  assertion; with a null attribute argument it returns 0 and the mutex is an
  initialised critical section that no thread owns.
\<close>

theorem pthread_mutex_init_attributes:
  "(opts \<noteq> NULL \<longrightarrow> (\<exists>msg. pthread_mutex_init mutex opts w = Abort msg)) \<and>
   (opts = NULL \<longrightarrow>
      (\<exists>w1. pthread_mutex_init mutex opts w = Return (0, w1) \<and>
            mutexes w1 mutex = Some \<lparr>owner = None, recursion = 0\<rparr>))"
  by (simp add: pthread_mutex_init_def rassert_def InitializeCriticalSection_def)

theorem pthread_mutex_init_attributes_witness:
  "(1 :: uintptr_t) \<noteq> NULL \<and>
   (\<exists>msg. pthread_mutex_init 16 1 world0 = Abort msg) \<and>
   (\<exists>w1. pthread_mutex_init 16 NULL world0 = Return (0, w1) \<and>
         mutexes w1 16 = Some \<lparr>owner = None, recursion = 0\<rparr>)"
proof -
  have h: "(1 :: uintptr_t) \<noteq> NULL" by (simp add: NULL_def)
  show ?thesis
    using h pthread_mutex_init_attributes [of 1 16 world0]
      pthread_mutex_init_attributes [of NULL 16 world0]
    by simp
qed

subsection \<open>C8: destroying a mutex or a condition variable\<close>

text \<open>
  C8, as stated, fails: destroying a held mutex should be rejected or flagged. Thread 1
  initialises the mutex at address 16 and locks it; \<open>pthread_mutex_destroy\<close> on the held
  mutex returns 0, halts nothing and changes nothing.
\<close>

theorem destroy_held_mutex_succeeds:
  "pthread_mutex_init 16 NULL world0 = Return (0, InitializeCriticalSection 16 world0) \<and>
   pthread_mutex_lock 1 16 (InitializeCriticalSection 16 world0) = Return (0, held_world) \<and>
   mutexes held_world 16 = Some \<lparr>owner = Some 1, recursion = 1\<rparr> \<and>
   pthread_mutex_destroy 16 held_world = (0, held_world)"
  by (simp add: pthread_mutex_init_def rassert_def pthread_mutex_lock_def
      EnterCriticalSection_def InitializeCriticalSection_def held_world_def world0_def
      pthread_mutex_destroy_def)

text \<open>
  C8, amended. \<open>pthread_mutex_destroy\<close> and \<open>pthread_cond_destroy\<close> return 0 in every
  state and leave the state as it is, whether or not the object is held or waited on:
  they make no check.
\<close>

theorem destroy_checks_nothing:
  "pthread_mutex_destroy mutex w = (0, w) \<and> pthread_cond_destroy cond w = (0, w)"
  by (simp add: pthread_mutex_destroy_def pthread_cond_destroy_def)

subsection \<open>C9: mutual exclusion\<close>

text \<open>
  C9. Initialise a mutex with \<open>pthread_mutex_init\<close> and let any threads call
  \<open>pthread_mutex_lock\<close> and \<open>pthread_mutex_unlock\<close> on it in any order. After every
  schedule, so at every instant of a run, two distinct threads do not both hold the
  mutex.
\<close>

theorem mutex_mutual_exclusion:
  assumes "pthread_mutex_init m NULL w0 = Return (0, w)"
    and "run_schedule m sched (w, \<lambda>_. 0) = Some (w1, held)"
    and "t1 \<noteq> t2"
  shows "\<not> (0 < held t1 \<and> 0 < held t2)"
proof -
  have "lock_invariant m (w, \<lambda>_. 0)" using assms(1) by (rule lock_invariant_init)
  then have "lock_invariant m (w1, held)" using assms(2) by (rule lock_invariant_run)
  then show ?thesis using assms(3) by (blast dest: lock_invariant_exclusive)
qed

theorem mutex_mutual_exclusion_witness:
  "pthread_mutex_init 16 NULL world0 = Return (0, InitializeCriticalSection 16 world0) \<and>
   (1 :: nat) \<noteq> 2 \<and>
   (\<exists>w1 held.
      run_schedule 16 [(1, Lock), (2, Lock), (1, Unlock), (2, Lock)]
        (InitializeCriticalSection 16 world0, \<lambda>_. 0) = Some (w1, held) \<and>
      held 1 = 0 \<and> held 2 = 1 \<and> \<not> (0 < held 1 \<and> 0 < held 2))"
proof -
  have i: "pthread_mutex_init 16 NULL world0 = Return (0, InitializeCriticalSection 16 world0)"
    by (simp add: pthread_mutex_init_def rassert_def)
  have n: "(1 :: nat) \<noteq> 2" by simp
  have "\<exists>w1 held.
      run_schedule 16 [(1, Lock), (2, Lock), (1, Unlock), (2, Lock)]
        (InitializeCriticalSection 16 world0, \<lambda>_. 0) = Some (w1, held) \<and>
      held 1 = 0 \<and> held 2 = 1"
    by (simp add: pthread_mutex_lock_def pthread_mutex_unlock_def EnterCriticalSection_def
        LeaveCriticalSection_def InitializeCriticalSection_def world0_def)
  then obtain w1 held where
    r: "run_schedule 16 [(1, Lock), (2, Lock), (1, Unlock), (2, Lock)]
        (InitializeCriticalSection 16 world0, \<lambda>_. 0) = Some (w1, held)"
    and h: "held 1 = 0" "held 2 = 1" by blast
  have "\<not> (0 < held 1 \<and> 0 < held 2)" by (rule mutex_mutual_exclusion [OF i r n])
  with i n r h show ?thesis by blast
qed

subsection \<open>C10: thread attributes\<close>

text \<open>
  C10. \<open>pthread_attr_init\<close>, \<open>pthread_attr_setstacksize\<close> and \<open>pthread_attr_destroy\<close>
  return 0 and leave the state as it is, and \<open>pthread_create\<close> after a request for a
  stack size does what it does without the request and with any other attribute
  argument.
\<close>

theorem attr_operations_no_effect:
  "pthread_attr_init a w = (0, w) \<and>
   pthread_attr_setstacksize a n w = (0, w) \<and>
   pthread_attr_destroy a w = (0, w) \<and>
   pthread_create t a f arg os (snd (pthread_attr_setstacksize a n w)) =
     pthread_create t attr f arg os w"
  by (simp add: pthread_attr_init_def pthread_attr_setstacksize_def pthread_attr_destroy_def
      pthread_create_def)

end
